theory Spec2Isabelle
  imports Main
begin

section \<open>Python values\<close>

text \<open>
  The values that flow through the modelled code: \<^verbatim>\<open>None\<close>, booleans, integers,
  strings, lists and dictionaries with string keys.
\<close>

datatype pyval =
    PyNone
  | PyBool bool
  | PyInt int
  | PyStr string
  | PyList "pyval list"
  | PyDict "(string \<times> pyval) list"

text \<open>\<^verbatim>\<open>type(v)\<close> as it is printed inside an f-string.\<close>

fun py_type :: "pyval \<Rightarrow> string" where
  "py_type PyNone = ''<class 'NoneType'>''"
| "py_type (PyBool _) = ''<class 'bool'>''"
| "py_type (PyInt _) = ''<class 'int'>''"
| "py_type (PyStr _) = ''<class 'str'>''"
| "py_type (PyList _) = ''<class 'list'>''"
| "py_type (PyDict _) = ''<class 'dict'>''"

section \<open>reporters/generators/utils.py: BuildStatusGeneratorMixin\<close>

subsection \<open>Mode shortcuts\<close>

text \<open>
  The \<^verbatim>\<open>mode\<close> argument is a single string or a sequence of strings;
  \<^verbatim>\<open>_compute_shortcut_modes\<close> turns a string into a tuple.
\<close>

datatype mode_arg = ModeStr string | ModeSeq "string list"

fun compute_shortcut_modes :: "mode_arg \<Rightarrow> string list" where
  "compute_shortcut_modes (ModeStr m) =
     (if m = ''all'' then [''failing'', ''passing'', ''warnings'', ''exception'', ''cancelled'']
      else if m = ''warnings'' then [''failing'', ''warnings'']
      else [m])"
| "compute_shortcut_modes (ModeSeq ms) = ms"

subsection \<open>Result codes\<close>

text \<open>
  The result codes are imported from \<^verbatim>\<open>buildbot.process.results\<close>, which is not
  among the sources at hand. They are integers; the functions below take the module's
  constants as a parameter.
\<close>

record results_module =
  SUCCESS :: int
  WARNINGS :: int
  FAILURE :: int
  EXCEPTION :: int
  CANCELLED :: int

text \<open>
  A build dictionary, restricted to the keys \<^verbatim>\<open>is_message_needed_by_results\<close> reads:
  \<^verbatim>\<open>build['results']\<close> (an integer, or \<^verbatim>\<open>None\<close> while the build runs) and
  \<^verbatim>\<open>build['prev_build']\<close> (a build dictionary or \<^verbatim>\<open>None\<close>). A build dictionary is a
  non-empty dict, hence truthy.
\<close>

datatype build = Build (results: "int option") (prev_build: "build option")

text \<open>
  \<^verbatim>\<open>prev and prev['results'] != r\<close>: false when there is no previous build.
\<close>

definition prev_differs :: "build option \<Rightarrow> int option \<Rightarrow> bool" where
  "prev_differs prev r = (case prev of None \<Rightarrow> False | Some p \<Rightarrow> results p \<noteq> r)"

definition is_message_needed_by_results :: "results_module \<Rightarrow> string list \<Rightarrow> build \<Rightarrow> bool" where
  "is_message_needed_by_results rc mode b =
     (let res = results b in
      if ''change'' \<in> set mode \<and> prev_differs (prev_build b) res then True
      else if ''failing'' \<in> set mode \<and> res = Some (FAILURE rc) then True
      else if ''passing'' \<in> set mode \<and> res = Some (SUCCESS rc) then True
      else if ''problem'' \<in> set mode \<and> res = Some (FAILURE rc)
              \<and> prev_differs (prev_build b) (Some (FAILURE rc)) then True
      else if ''warnings'' \<in> set mode \<and> res = Some (WARNINGS rc) then True
      else if ''exception'' \<in> set mode \<and> res = Some (EXCEPTION rc) then True
      else if ''cancelled'' \<in> set mode \<and> res = Some (CANCELLED rc) then True
      else False)"

text \<open>The values the constants have upstream (\<^verbatim>\<open>range(7)\<close> with SKIPPED = 3, RETRY = 5).\<close>

definition upstream_results :: results_module where
  "upstream_results =
     \<lparr>SUCCESS = 0, WARNINGS = 1, FAILURE = 2, EXCEPTION = 4, CANCELLED = 6\<rparr>"

subsection \<open>Merging message bodies\<close>

text \<open>
  \<^verbatim>\<open>_merge_body\<close> returns the merged body and a flag; the only effect is one
  \<^verbatim>\<open>log.msg\<close> call, modelled by the list of logged lines that is returned with the
  result. The first argument is \<^verbatim>\<open>str(self)\<close>, the prefix of the logged line.
\<close>

definition merge_body :: "string \<Rightarrow> pyval \<Rightarrow> pyval \<Rightarrow> string list \<times> (pyval \<times> bool)" where
  "merge_body self body new_body =
     (if body = PyNone then ([], (new_body, True))
      else if new_body = PyNone then ([], (body, True))
      else case (body, new_body) of
          (PyStr a, PyStr b) \<Rightarrow> ([], (PyStr (a @ b), True))
        | (PyList a, PyList b) \<Rightarrow> ([], (PyList (a @ b), True))
        | _ \<Rightarrow>
          ([self @ '': Incompatible message body types for multiple builds (''
              @ py_type body @ '' and '' @ py_type new_body @ ''). Ignoring''],
           (body, False)))"

definition is_str :: "pyval \<Rightarrow> bool" where
  "is_str v = (case v of PyStr _ \<Rightarrow> True | _ \<Rightarrow> False)"

definition is_list :: "pyval \<Rightarrow> bool" where
  "is_list v = (case v of PyList _ \<Rightarrow> True | _ \<Rightarrow> False)"

section \<open>changes/filter.py: ChangeFilter\<close>

subsection \<open>Exceptions, changes and filter objects\<close>

text \<open>
  Exceptions are values: a function that can raise returns \<open>exn + 'a\<close>, with
  \<open>Inl\<close> for the exception.
\<close>

datatype exn =
    AttributeError string
  | KeyError string
  | ConfigError string
  | RuntimeError string
  | Raised string

text \<open>
  A change object as \<^verbatim>\<open>filter_change\<close> sees it: its instance attributes by name
  (a Change carries project, codebase, repository, category and branch, but the
  argument is typed \<^verbatim>\<open>Any\<close> and the code provides for a missing attribute), and its
  properties, each a value with the name of its source.
\<close>

record change =
  attrs :: "string \<rightharpoonup> pyval"
  properties :: "string \<rightharpoonup> pyval \<times> string"

text \<open>\<^verbatim>\<open>change.name\<close> raises AttributeError when the attribute is missing.\<close>

definition getattr :: "change \<Rightarrow> string \<Rightarrow> exn + pyval" where
  "getattr ch a = (case attrs ch a of None \<Rightarrow> Inl (AttributeError a) | Some v \<Rightarrow> Inr v)"

text \<open>\<^verbatim>\<open>getattr(change, name, default)\<close>.\<close>

definition getattr_default :: "change \<Rightarrow> string \<Rightarrow> pyval \<Rightarrow> pyval" where
  "getattr_default ch a d = (case attrs ch a of None \<Rightarrow> d | Some v \<Rightarrow> v)"

text \<open>
  Modelled from the spec: the class Properties (buildbot.process.properties) is not among
  the sources; the spec describes a property mapping from key to (value, source) pairs.
  \<^verbatim>\<open>change.properties.getProperty(name, default)\<close> is the value stored under the name, or
  the default.
\<close>

definition getProperty :: "change \<Rightarrow> string \<Rightarrow> pyval \<Rightarrow> pyval" where
  "getProperty ch p d = (case properties ch p of None \<Rightarrow> d | Some (v, _) \<Rightarrow> v)"

text \<open>
  The filter objects come from \<^verbatim>\<open>buildbot.util.ssfilter\<close>, which is not among the
  sources. \<^verbatim>\<open>filter_change\<close> uses two members of such an object: the name
  \<^verbatim>\<open>prop\<close> (here \<open>filter_prop\<close>) and the method \<^verbatim>\<open>is_matched\<close>, whatever it computes.
\<close>

record filter_obj =
  filter_prop :: string
  is_matched :: "pyval \<Rightarrow> exn + bool"

record ChangeFilter =
  filter_fn :: "(change \<Rightarrow> exn + bool) option"
  project_fn :: "(pyval \<Rightarrow> exn + bool) option"
  repository_fn :: "(pyval \<Rightarrow> exn + bool) option"
  branch_fn :: "(pyval \<Rightarrow> exn + bool) option"
  category_fn :: "(pyval \<Rightarrow> exn + bool) option"
  codebase_fn :: "(pyval \<Rightarrow> exn + bool) option"
  filters :: "filter_obj list"
  property_filters :: "filter_obj list"

subsection \<open>The constructor\<close>

text \<open>\<^verbatim>\<open>NotABranch\<close> is the default of the branch arguments, distinct from None.\<close>

datatype branch_arg = NotABranch | BranchVal pyval

text \<open>
  The keyword arguments of \<^verbatim>\<open>__init__\<close>; \<open>None\<close> is Python's None, the default.
  The fields carry the prefix \<open>a_\<close> to keep them apart from the attributes of the
  constructed object.
\<close>

record init_args =
  a_filter_fn :: "(change \<Rightarrow> exn + bool) option"
  a_project :: "pyval option"
  a_project_not_eq :: "pyval option"
  a_project_re :: "pyval option"
  a_project_not_re :: "pyval option"
  a_project_fn :: "(pyval \<Rightarrow> exn + bool) option"
  a_repository :: "pyval option"
  a_repository_not_eq :: "pyval option"
  a_repository_re :: "pyval option"
  a_repository_not_re :: "pyval option"
  a_repository_fn :: "(pyval \<Rightarrow> exn + bool) option"
  a_branch :: branch_arg
  a_branch_not_eq :: branch_arg
  a_branch_re :: "pyval option"
  a_branch_not_re :: "pyval option"
  a_branch_fn :: "(pyval \<Rightarrow> exn + bool) option"
  a_category :: "pyval option"
  a_category_not_eq :: "pyval option"
  a_category_re :: "pyval option"
  a_category_not_re :: "pyval option"
  a_category_fn :: "(pyval \<Rightarrow> exn + bool) option"
  a_codebase :: "pyval option"
  a_codebase_not_eq :: "pyval option"
  a_codebase_re :: "pyval option"
  a_codebase_not_re :: "pyval option"
  a_codebase_fn :: "(pyval \<Rightarrow> exn + bool) option"
  a_property_eq :: "(string \<times> pyval) list option"
  a_property_not_eq :: "(string \<times> pyval) list option"
  a_property_re :: "(string \<times> pyval) list option"
  a_property_not_re :: "(string \<times> pyval) list option"

text \<open>The call \<^verbatim>\<open>ChangeFilter()\<close> with every argument at its default.\<close>

definition default_args :: init_args where
  "default_args =
     \<lparr>a_filter_fn = None,
      a_project = None, a_project_not_eq = None, a_project_re = None,
      a_project_not_re = None, a_project_fn = None,
      a_repository = None, a_repository_not_eq = None, a_repository_re = None,
      a_repository_not_re = None, a_repository_fn = None,
      a_branch = NotABranch, a_branch_not_eq = NotABranch, a_branch_re = None,
      a_branch_not_re = None, a_branch_fn = None,
      a_category = None, a_category_not_eq = None, a_category_re = None,
      a_category_not_re = None, a_category_fn = None,
      a_codebase = None, a_codebase_not_eq = None, a_codebase_re = None,
      a_codebase_not_re = None, a_codebase_fn = None,
      a_property_eq = None, a_property_not_eq = None, a_property_re = None,
      a_property_not_re = None\<rparr>"

text \<open>
  The three helpers of \<^verbatim>\<open>buildbot.util.ssfilter\<close> that the constructor calls. The
  module is not among the sources, so the constructor takes it as a parameter: each helper
  returns a list of filter objects or raises.
\<close>

record ssfilter_module =
  create_filters ::
    "pyval option \<Rightarrow> pyval option \<Rightarrow> pyval option \<Rightarrow> pyval option \<Rightarrow> string
      \<Rightarrow> exn + filter_obj list"
  create_branch_filters ::
    "branch_arg \<Rightarrow> branch_arg \<Rightarrow> pyval option \<Rightarrow> pyval option \<Rightarrow> string
      \<Rightarrow> exn + filter_obj list"
  create_property_filters ::
    "(string \<times> pyval) list option \<Rightarrow> (string \<times> pyval) list option
      \<Rightarrow> (string \<times> pyval) list option \<Rightarrow> (string \<times> pyval) list option \<Rightarrow> string
      \<Rightarrow> exn + filter_obj list"

text \<open>
  \<^verbatim>\<open>self.filters += helper(...)\<close>: the helper's exception leaves the constructor.
\<close>

definition extend_filters :: "exn + filter_obj list \<Rightarrow> exn + filter_obj list \<Rightarrow> exn + filter_obj list" where
  "extend_filters acc new =
     (case acc of Inl e \<Rightarrow> Inl e
      | Inr fs \<Rightarrow> (case new of Inl e \<Rightarrow> Inl e | Inr gs \<Rightarrow> Inr (fs @ gs)))"

definition init_filters :: "ssfilter_module \<Rightarrow> init_args \<Rightarrow> exn + filter_obj list" where
  "init_filters ss a =
     extend_filters (extend_filters (extend_filters (extend_filters
       (create_filters ss (a_project a) (a_project_not_eq a) (a_project_re a)
          (a_project_not_re a) ''project'')
       (create_filters ss (a_repository a) (a_repository_not_eq a) (a_repository_re a)
          (a_repository_not_re a) ''repository''))
       (create_branch_filters ss (a_branch a) (a_branch_not_eq a) (a_branch_re a)
          (a_branch_not_re a) ''branch''))
       (create_filters ss (a_category a) (a_category_not_eq a) (a_category_re a)
          (a_category_not_re a) ''category''))
       (create_filters ss (a_codebase a) (a_codebase_not_eq a) (a_codebase_re a)
          (a_codebase_not_re a) ''codebase'')"

definition ChangeFilter_init :: "ssfilter_module \<Rightarrow> init_args \<Rightarrow> exn + ChangeFilter" where
  "ChangeFilter_init ss a =
     (case init_filters ss a of
        Inl e \<Rightarrow> Inl e
      | Inr fs \<Rightarrow>
        (case create_property_filters ss (a_property_eq a) (a_property_not_eq a)
                (a_property_re a) (a_property_not_re a) ''property'' of
           Inl e \<Rightarrow> Inl e
         | Inr pfs \<Rightarrow>
           Inr \<lparr>filter_fn = a_filter_fn a,
                project_fn = a_project_fn a,
                repository_fn = a_repository_fn a,
                branch_fn = a_branch_fn a,
                category_fn = a_category_fn a,
                codebase_fn = a_codebase_fn a,
                filters = fs,
                property_filters = pfs\<rparr>))"

subsection \<open>filter\_change\<close>

text \<open>
  The condition \<^verbatim>\<open>self.f is not None and not self.f(arg)\<close>: the argument is read and
  the callable is called only when the callable is configured.
\<close>

definition fn_rejects :: "('a \<Rightarrow> exn + bool) option \<Rightarrow> exn + 'a \<Rightarrow> exn + bool" where
  "fn_rejects fn arg =
     (case fn of
        None \<Rightarrow> Inr False
      | Some f \<Rightarrow>
        (case arg of
           Inl e \<Rightarrow> Inl e
         | Inr v \<Rightarrow> (case f v of Inl e \<Rightarrow> Inl e | Inr b \<Rightarrow> Inr (\<not> b))))"

text \<open>\<^verbatim>\<open>if cond: return False\<close>, followed by the rest of the body.\<close>

definition return_False_if :: "exn + bool \<Rightarrow> exn + bool \<Rightarrow> exn + bool" where
  "return_False_if cond rest =
     (case cond of Inl e \<Rightarrow> Inl e | Inr c \<Rightarrow> if c then Inr False else rest)"

text \<open>The two loops; \<open>rest\<close> is what follows the loop.\<close>

fun filters_loop :: "filter_obj list \<Rightarrow> change \<Rightarrow> exn + bool \<Rightarrow> exn + bool" where
  "filters_loop [] ch rest = rest"
| "filters_loop (f # fs) ch rest =
     (let v = getattr_default ch (filter_prop f) (PyStr '''') in
      case is_matched f v of
        Inl e \<Rightarrow> Inl e
      | Inr m \<Rightarrow> if \<not> m then Inr False else filters_loop fs ch rest)"

fun property_filters_loop :: "filter_obj list \<Rightarrow> change \<Rightarrow> exn + bool \<Rightarrow> exn + bool" where
  "property_filters_loop [] ch rest = rest"
| "property_filters_loop (f # fs) ch rest =
     (let v = getProperty ch (filter_prop f) (PyStr '''') in
      case is_matched f v of
        Inl e \<Rightarrow> Inl e
      | Inr m \<Rightarrow> if \<not> m then Inr False else property_filters_loop fs ch rest)"

definition filter_change :: "ChangeFilter \<Rightarrow> change \<Rightarrow> exn + bool" where
  "filter_change cf ch =
     return_False_if (fn_rejects (filter_fn cf) (Inr ch))
    (return_False_if (fn_rejects (project_fn cf) (getattr ch ''project''))
    (return_False_if (fn_rejects (codebase_fn cf) (getattr ch ''codebase''))
    (return_False_if (fn_rejects (repository_fn cf) (getattr ch ''repository''))
    (return_False_if (fn_rejects (category_fn cf) (getattr ch ''category''))
    (return_False_if (fn_rejects (branch_fn cf) (getattr ch ''branch''))
    (filters_loop (filters cf) ch
    (property_filters_loop (property_filters cf) ch
    (Inr True))))))))"

subsection \<open>The sub-filters, as the specification lists them\<close>




text \<open>The callable filter that reads the attribute of the given name, if any.\<close>

definition fn_for :: "ChangeFilter \<Rightarrow> string \<Rightarrow> (pyval \<Rightarrow> exn + bool) option" where
  "fn_for cf a =
     (if a = ''project'' then project_fn cf
      else if a = ''codebase'' then codebase_fn cf
      else if a = ''repository'' then repository_fn cf
      else if a = ''category'' then category_fn cf
      else if a = ''branch'' then branch_fn cf
      else None)"

text \<open>The arguments with every callable removed.\<close>

definition without_fns :: "init_args \<Rightarrow> init_args" where
  "without_fns a =
     a\<lparr>a_filter_fn := None, a_project_fn := None, a_repository_fn := None,
       a_branch_fn := None, a_category_fn := None, a_codebase_fn := None\<rparr>"

text \<open>A ChangeFilter with nothing configured.\<close>

definition no_filters :: ChangeFilter where
  "no_filters =
     \<lparr>filter_fn = None, project_fn = None, repository_fn = None, branch_fn = None,
      category_fn = None, codebase_fn = None, filters = [], property_filters = []\<rparr>"

subsection \<open>The filter helpers, from the specification\<close>

text \<open>
  Modelled from the spec: the module \<^verbatim>\<open>buildbot.util.ssfilter\<close> with its helpers
  \<^verbatim>\<open>_create_filters\<close>, \<^verbatim>\<open>_create_branch_filters\<close> and \<^verbatim>\<open>_create_property_filters\<close> is
  missing. The spec lets each field be filtered by an exact value or a list of acceptable
  values, by a not-equal negation, by a regex match or by a regex negation, and makes a
  spec of an invalid type fail at construction with a configuration error. A branch value
  may also be None. Regular-expression matching itself is the parameter \<open>rm\<close> (pattern,
  then subject).
\<close>

definition is_str_or_none :: "pyval \<Rightarrow> bool" where
  "is_str_or_none v = (is_str v \<or> v = PyNone)"

text \<open>
  Modelled from the spec: the values of one filter spec (missing
  ssfilter.extract_filter_values): a single valid value, or a list of valid values;
  anything else is a configuration error.
\<close>

definition extract_filter_values :: "(pyval \<Rightarrow> bool) \<Rightarrow> pyval \<Rightarrow> string \<Rightarrow> exn + pyval list" where
  "extract_filter_values ok v filter_name =
     (if ok v then Inr [v]
      else case v of
          PyList vs \<Rightarrow>
            if list_all ok vs then Inr vs
            else Inl (ConfigError (''Value of filter '' @ filter_name @ '' has an invalid type''))
        | _ \<Rightarrow> Inl (ConfigError (''Values of filter '' @ filter_name @ '' have an invalid type'')))"

text \<open>
  Modelled from the spec: the filter for an exact value or a list of acceptable values
  (missing class of ssfilter): the value must be one of them.
\<close>

definition FilterExactMatch :: "string \<Rightarrow> pyval list \<Rightarrow> filter_obj" where
  "FilterExactMatch p vs = \<lparr>filter_prop = p, is_matched = (\<lambda>v. Inr (v \<in> set vs))\<rparr>"

text \<open>
  Modelled from the spec: the not-equal negation (missing class of ssfilter): the value
  must be none of them.
\<close>

definition FilterExactMatchInverse :: "string \<Rightarrow> pyval list \<Rightarrow> filter_obj" where
  "FilterExactMatchInverse p vs = \<lparr>filter_prop = p, is_matched = (\<lambda>v. Inr (v \<notin> set vs))\<rparr>"

text \<open>
  Modelled from the spec: a regular expression applies to strings only; the matching
  itself is the parameter.
\<close>

definition regex_matches :: "(string \<Rightarrow> string \<Rightarrow> bool) \<Rightarrow> pyval \<Rightarrow> pyval \<Rightarrow> bool" where
  "regex_matches rm r v = (case (r, v) of (PyStr p, PyStr s) \<Rightarrow> rm p s | _ \<Rightarrow> False)"

text \<open>
  Modelled from the spec: the regex match (missing class of ssfilter): one of the
  expressions must match the value.
\<close>

definition FilterRegex :: "(string \<Rightarrow> string \<Rightarrow> bool) \<Rightarrow> string \<Rightarrow> pyval list \<Rightarrow> filter_obj" where
  "FilterRegex rm p rs =
     \<lparr>filter_prop = p, is_matched = (\<lambda>v. Inr (list_ex (\<lambda>r. regex_matches rm r v) rs))\<rparr>"

text \<open>
  Modelled from the spec: the regex negation (missing class of ssfilter): no expression
  may match the value.
\<close>

definition FilterRegexInverse :: "(string \<Rightarrow> string \<Rightarrow> bool) \<Rightarrow> string \<Rightarrow> pyval list \<Rightarrow> filter_obj" where
  "FilterRegexInverse rm p rs =
     \<lparr>filter_prop = p, is_matched = (\<lambda>v. Inr (\<not> list_ex (\<lambda>r. regex_matches rm r v) rs))\<rparr>"

text \<open>
  Modelled from the spec: one optional filter spec gives no filter when it is not given
  and one filter when it is valid.
\<close>

definition one_filter ::
  "(pyval list \<Rightarrow> filter_obj) \<Rightarrow> (pyval \<Rightarrow> bool) \<Rightarrow> pyval option \<Rightarrow> string \<Rightarrow> exn + filter_obj list" where
  "one_filter mk ok spec filter_name =
     (case spec of
        None \<Rightarrow> Inr []
      | Some v \<Rightarrow>
        (case extract_filter_values ok v filter_name of
           Inl e \<Rightarrow> Inl e
         | Inr vs \<Rightarrow> Inr [mk vs]))"

text \<open>
  Modelled from the spec: the missing helper _create_filters: the filters of one field,
  for its exact values, its not-equal values, its regex and its negated regex, in this
  order.
\<close>

definition create_filters_spec ::
  "(string \<Rightarrow> string \<Rightarrow> bool) \<Rightarrow> (pyval \<Rightarrow> bool) \<Rightarrow> pyval option \<Rightarrow> pyval option \<Rightarrow> pyval option
     \<Rightarrow> pyval option \<Rightarrow> string \<Rightarrow> exn + filter_obj list" where
  "create_filters_spec rm ok eq not_eq regex not_regex p =
     extend_filters (extend_filters (extend_filters
       (one_filter (FilterExactMatch p) ok eq (p @ ''_eq''))
       (one_filter (FilterExactMatchInverse p) ok not_eq (p @ ''_not_eq'')))
       (one_filter (FilterRegex rm p) is_str regex (p @ ''_re'')))
       (one_filter (FilterRegexInverse rm p) is_str not_regex (p @ ''_not_re''))"

text \<open>
  Modelled from the spec: the missing helper _create_branch_filters reads the sentinel
  NotABranch as ``no filter''; any other value, None included, is a filter spec.
\<close>

definition branch_spec :: "branch_arg \<Rightarrow> pyval option" where
  "branch_spec b = (case b of NotABranch \<Rightarrow> None | BranchVal v \<Rightarrow> Some v)"

text \<open>
  Modelled from the spec: a property filter dictionary gives one filter per property
  name, in its order.
\<close>

fun property_filters_of ::
  "(string \<Rightarrow> pyval list \<Rightarrow> filter_obj) \<Rightarrow> string \<Rightarrow> (string \<times> pyval) list \<Rightarrow> exn + filter_obj list" where
  "property_filters_of mk filter_name [] = Inr []"
| "property_filters_of mk filter_name ((name, v) # kvs) =
     extend_filters (one_filter (mk name) is_str (Some v) filter_name)
            (property_filters_of mk filter_name kvs)"

text \<open>
  Modelled from the spec: a property filter argument that is not given (None) has no
  items.
\<close>

definition dict_items :: "(string \<times> pyval) list option \<Rightarrow> (string \<times> pyval) list" where
  "dict_items d = (case d of None \<Rightarrow> [] | Some kvs \<Rightarrow> kvs)"

text \<open>
  Modelled from the spec: the missing helper _create_property_filters: the filters of the
  four property dictionaries, in the order of the arguments.
\<close>

definition create_property_filters_spec ::
  "(string \<Rightarrow> string \<Rightarrow> bool) \<Rightarrow> (string \<times> pyval) list option \<Rightarrow> (string \<times> pyval) list option
     \<Rightarrow> (string \<times> pyval) list option \<Rightarrow> (string \<times> pyval) list option \<Rightarrow> string
     \<Rightarrow> exn + filter_obj list" where
  "create_property_filters_spec rm eq not_eq regex not_regex p =
     extend_filters (extend_filters (extend_filters
       (property_filters_of FilterExactMatch (p @ ''_eq'') (dict_items eq))
       (property_filters_of FilterExactMatchInverse (p @ ''_not_eq'') (dict_items not_eq)))
       (property_filters_of (FilterRegex rm) (p @ ''_re'') (dict_items regex)))
       (property_filters_of (FilterRegexInverse rm) (p @ ''_not_re'') (dict_items not_regex))"

text \<open>
  Modelled from the spec: the missing module ssfilter with its three helpers; a branch
  may be filtered to None.
\<close>

definition ssfilter_spec :: "(string \<Rightarrow> string \<Rightarrow> bool) \<Rightarrow> ssfilter_module" where
  "ssfilter_spec rm =
     \<lparr>create_filters = create_filters_spec rm is_str,
      create_branch_filters =
        (\<lambda>eq not_eq. create_filters_spec rm is_str_or_none (branch_spec eq) (branch_spec not_eq)),
      create_property_filters = create_property_filters_spec rm\<rparr>"

text \<open>A change with the five attributes of a Change and no properties.\<close>

definition a_change :: "string \<Rightarrow> change" where
  "a_change br =
     \<lparr>attrs = [''project'' \<mapsto> PyStr ''p'', ''codebase'' \<mapsto> PyStr ''cb'',
               ''repository'' \<mapsto> PyStr ''r'', ''category'' \<mapsto> PyNone,
               ''branch'' \<mapsto> PyStr br],
      properties = Map.empty\<rparr>"

text \<open>
  For each of the five fields, a constructor call that gives the field both a value and a
  callable.
\<close>

definition value_and_fn :: "string \<Rightarrow> init_args" where
  "value_and_fn field =
     (if field = ''project'' then
        default_args\<lparr>a_project := Some (PyStr ''p''), a_project_fn := Some (\<lambda>v. Inr True)\<rparr>
      else if field = ''repository'' then
        default_args\<lparr>a_repository := Some (PyStr ''r''), a_repository_fn := Some (\<lambda>v. Inr True)\<rparr>
      else if field = ''branch'' then
        default_args\<lparr>a_branch := BranchVal (PyStr ''master''),
                     a_branch_fn := Some (\<lambda>v. Inr True)\<rparr>
      else if field = ''category'' then
        default_args\<lparr>a_category := Some (PyStr ''c''), a_category_fn := Some (\<lambda>v. Inr True)\<rparr>
      else
        default_args\<lparr>a_codebase := Some (PyStr ''cb''), a_codebase_fn := Some (\<lambda>v. Inr True)\<rparr>)"


text \<open>An object with no attribute and no property at all.\<close>

definition bare_change :: change where
  "bare_change = \<lparr>attrs = Map.empty, properties = Map.empty\<rparr>"

text \<open>
  Value-based filters that accept only the empty string, on the project and on the
  property color.
\<close>

definition empty_only :: ChangeFilter where
  "empty_only =
     no_filters\<lparr>filters := [FilterExactMatch ''project'' [PyStr '''']],
                property_filters := [FilterExactMatch ''color'' [PyStr '''']]\<rparr>"

section \<open>schedulers/base.py: the scheduler core\<close>

text \<open>
  The module \<^verbatim>\<open>buildbot/schedulers/base.py\<close> is not among the sources; only its unit
  tests (\<^verbatim>\<open>test/unit/schedulers/test_base.py\<close>) are. Every definition of this section is
  modelled from the specification, sections 4.2 to 4.5, and checked against the tests.
\<close>

subsection \<open>Data\<close>

type_synonym props = "string \<rightharpoonup> pyval \<times> string"

type_synonym pydict = "string \<rightharpoonup> pyval"

text \<open>
  Modelled from the spec: a builder name of the missing scheduler configuration is a
  literal or is computed from the build properties (section 9: Literal or Computed); a
  computed entry yields a list of names, or None for ``skip''.
\<close>

datatype builder_name = Literal string | Computed "props \<Rightarrow> string list option"

text \<open>
  Modelled from the spec: the configuration of the missing class BaseScheduler: its name,
  its builder names, its static properties and its codebases, each codebase name with its
  default dictionary (repository, branch, revision), in the order of the configuration.
\<close>

record scheduler =
  name :: string
  builderNames :: "builder_name list"
  sched_properties :: pydict
  codebases :: "(string \<times> pydict) list"

text \<open>
  Modelled from the spec: the persistent store behind the missing data API, as far as the
  scheduler reads it: \<^verbatim>\<open>getChange(id)\<close> gives the codebase, the sourcestamp id and the
  properties of a change; \<^verbatim>\<open>getBuilderId(name)\<close> gives a builder's id.
\<close>

record change_row =
  row_codebase :: string
  row_sourcestampid :: nat
  row_properties :: pydict

text \<open>
  Modelled from the spec: the store itself (missing data API): the changes by id and the
  builder ids by name.
\<close>

record store =
  db_changes :: "nat \<rightharpoonup> change_row"
  db_builders :: "string \<rightharpoonup> nat"

text \<open>
  Modelled from the spec: a change as the missing getChange returns it, with its change
  id.
\<close>

record chdict =
  changeid :: nat
  codebase :: string
  sourcestampid :: nat
  chdict_properties :: pydict

text \<open>
  Modelled from the spec: a sourcestamp of a buildset is the id of a persisted sourcestamp
  or an inline dictionary.
\<close>

datatype sourcestamp = SsId nat | SsDict pydict

text \<open>
  Modelled from the spec: the one ``create buildset'' request that the missing routine
  issues, with its arguments. The answer (the buildset id and the build request ids) is
  the store's and is not modelled; a function that issues the request returns it.
\<close>

record addBuildset_call =
  bs_scheduler :: string
  bs_reason :: string
  bs_waited_for :: bool
  bs_builderids :: "nat list"
  bs_external_idstring :: "string option"
  bs_properties :: props
  bs_sourcestamps :: "sourcestamp list"
  bs_priority :: int

subsection \<open>addBuildsetForSourceStamps: the common tail\<close>

text \<open>
  Modelled from the spec: (4.5, missing BaseScheduler.addBuildsetForSourceStamps) the
  merged properties start from the scheduler's static properties, each tagged
  ``Scheduler'', are overlaid with the caller's properties, and get the property
  \<^verbatim>\<open>scheduler\<close> last.
\<close>

definition tag :: "string \<Rightarrow> pydict \<Rightarrow> props" where
  "tag source d = (\<lambda>k. case d k of None \<Rightarrow> None | Some v \<Rightarrow> Some (v, source))"

text \<open>
  Modelled from the spec: the property merge of the missing common tail: the static
  properties tagged ``Scheduler'', overlaid with the caller's, then the property
  scheduler, set last.
\<close>

definition merge_properties :: "scheduler \<Rightarrow> props option \<Rightarrow> props" where
  "merge_properties sched caller_properties =
     (let static = tag ''Scheduler'' (sched_properties sched);
          supplied = (case caller_properties of None \<Rightarrow> Map.empty | Some p \<Rightarrow> p)
      in (static ++ supplied)(''scheduler'' \<mapsto> (PyStr (name sched), ''Scheduler'')))"

text \<open>
  Modelled from the spec: (4.5) the builder names are the caller's override when one is
  given, else the configured names, each computed entry evaluated on the properties (None
  gives no name); they are flattened and deduplicated. An explicit request for zero
  builders fails; each name is mapped to its builder id, and an unknown name is a lookup
  error.
\<close>

fun evaluate_name :: "props \<Rightarrow> builder_name \<Rightarrow> string list" where
  "evaluate_name ps (Literal n) = [n]"
| "evaluate_name ps (Computed f) = (case f ps of None \<Rightarrow> [] | Some ns \<Rightarrow> ns)"

text \<open>
  Modelled from the spec: the builder names of the missing common tail: the override when
  given (an empty override fails), else the configured names evaluated on the properties;
  flattened and deduplicated.
\<close>

definition resolve_builder_names :: "scheduler \<Rightarrow> string list option \<Rightarrow> props \<Rightarrow> exn + string list" where
  "resolve_builder_names sched override ps =
     (case override of
        Some ns \<Rightarrow> if ns = [] then Inl (RuntimeError ''no builders requested'') else Inr (remdups ns)
      | None \<Rightarrow> Inr (remdups (concat (map (evaluate_name ps) (builderNames sched)))))"

text \<open>
  Modelled from the spec: each builder name is mapped to its persisted id (missing
  getBuilderId); an unknown name is a lookup error.
\<close>

fun builder_ids :: "store \<Rightarrow> string list \<Rightarrow> exn + nat list" where
  "builder_ids db [] = Inr []"
| "builder_ids db (n # ns) =
     (case db_builders db n of
        None \<Rightarrow> Inl (KeyError n)
      | Some i \<Rightarrow> (case builder_ids db ns of Inl e \<Rightarrow> Inl e | Inr is \<Rightarrow> Inr (i # is)))"

text \<open>
  Modelled from the spec: the missing BaseScheduler.addBuildsetForSourceStamps: merge the
  properties, resolve the builder names to ids, and issue the one request with the
  reason, the flag, the ids, the external id, the merged properties, the sourcestamps and
  the priority (0 when none is given).
\<close>

definition addBuildsetForSourceStamps ::
  "store \<Rightarrow> scheduler \<Rightarrow> string \<Rightarrow> sourcestamp list \<Rightarrow> bool \<Rightarrow> string list option \<Rightarrow> props option
     \<Rightarrow> int option \<Rightarrow> string option \<Rightarrow> exn + addBuildset_call" where
  "addBuildsetForSourceStamps db sched reason sourcestamps waited_for builder_override caller_properties
       priority external_idstring =
     (let merged = merge_properties sched caller_properties in
      case resolve_builder_names sched builder_override merged of
        Inl e \<Rightarrow> Inl e
      | Inr names \<Rightarrow>
        (case builder_ids db names of
           Inl e \<Rightarrow> Inl e
         | Inr ids \<Rightarrow>
           Inr \<lparr>bs_scheduler = name sched,
                bs_reason = reason,
                bs_waited_for = waited_for,
                bs_builderids = ids,
                bs_external_idstring = external_idstring,
                bs_properties = merged,
                bs_sourcestamps = sourcestamps,
                bs_priority = (case priority of None \<Rightarrow> 0 | Some p \<Rightarrow> p)\<rparr>))"

subsection \<open>addBuildsetForSourceStampsWithDefaults\<close>

text \<open>
  Modelled from the spec: (4.5) the stub of a codebase takes repository, branch and
  revision from the defaults; branch and revision default to None and the project is the
  empty string. The default of the repository is the empty string: that is what
  \<^verbatim>\<open>test_addBuildsetForSourceStampsWithDefaults_no_repository\<close> expects.
\<close>

definition get_default :: "pydict \<Rightarrow> string \<Rightarrow> pyval \<Rightarrow> pyval" where
  "get_default d k dflt = (case d k of None \<Rightarrow> dflt | Some v \<Rightarrow> v)"

text \<open>
  Modelled from the spec: the stub of a codebase (missing code of
  addBuildsetForSourceStampsWithDefaults): the five keys, filled from the defaults.
\<close>

definition stub :: "string \<Rightarrow> pydict \<Rightarrow> pydict" where
  "stub cb defaults =
     [''codebase'' \<mapsto> PyStr cb,
      ''repository'' \<mapsto> get_default defaults ''repository'' (PyStr ''''),
      ''branch'' \<mapsto> get_default defaults ''branch'' PyNone,
      ''revision'' \<mapsto> get_default defaults ''revision'' PyNone,
      ''project'' \<mapsto> PyStr '''']"

text \<open>
  Modelled from the spec: the input sourcestamps by codebase. A sourcestamp names its
  codebase; the data model allows one sourcestamp per codebase in a buildset, so a second
  one for the same codebase is an error.
\<close>

fun stamps_by_codebase :: "pydict list \<Rightarrow> exn + (string \<times> pydict) list" where
  "stamps_by_codebase [] = Inr []"
| "stamps_by_codebase (ss # rest) =
     (case ss ''codebase'' of
        Some (PyStr cb) \<Rightarrow>
          (case stamps_by_codebase rest of
             Inl e \<Rightarrow> Inl e
           | Inr m \<Rightarrow>
             if cb \<in> fst ` set m
             then Inl (RuntimeError ''multiple sourcestamps with same codebase'')
             else Inr ((cb, ss) # m))
      | _ \<Rightarrow> Inl (KeyError ''codebase''))"

text \<open>
  Modelled from the spec: one sourcestamp per configured codebase, the stub overlaid with
  the fields present in the input sourcestamp of that codebase; then the input
  sourcestamps of codebases that are not configured, with nothing merged from the
  configuration (the tests show them with the same five keys).
\<close>

definition stamps_with_defaults :: "scheduler \<Rightarrow> (string \<times> pydict) list \<Rightarrow> pydict list" where
  "stamps_with_defaults sched given =
     map (\<lambda>(cb, defaults).
            stub cb defaults ++ (case map_of given cb of None \<Rightarrow> Map.empty | Some ss \<Rightarrow> ss))
         (codebases sched)
     @ map (\<lambda>(cb, ss). stub cb ss)
         (filter (\<lambda>(cb, ss). cb \<notin> fst ` set (codebases sched)) given)"

text \<open>
  Modelled from the spec: the missing
  BaseScheduler.addBuildsetForSourceStampsWithDefaults: the sourcestamps with defaults go
  to the common tail.
\<close>

definition addBuildsetForSourceStampsWithDefaults ::
  "store \<Rightarrow> scheduler \<Rightarrow> string \<Rightarrow> pydict list \<Rightarrow> bool \<Rightarrow> props option \<Rightarrow> string list option
     \<Rightarrow> int option \<Rightarrow> exn + addBuildset_call" where
  "addBuildsetForSourceStampsWithDefaults db sched reason sourcestamps waited_for caller_properties
       builder_override priority =
     (case stamps_by_codebase sourcestamps of
        Inl e \<Rightarrow> Inl e
      | Inr given \<Rightarrow>
        addBuildsetForSourceStamps db sched reason
          (map SsDict (stamps_with_defaults sched given)) waited_for builder_override caller_properties
          priority None)"

subsection \<open>addBuildsetForChanges\<close>

text \<open>
  Modelled from the spec: (4.5) each change id is resolved through the store; an unknown
  id is a lookup error.
\<close>

definition chdict_of :: "nat \<Rightarrow> change_row \<Rightarrow> chdict" where
  "chdict_of i r =
     \<lparr>changeid = i, codebase = row_codebase r, sourcestampid = row_sourcestampid r,
      chdict_properties = row_properties r\<rparr>"

text \<open>
  Modelled from the spec: the changes of the given ids, in the order of the ids (missing
  getChange); an unknown id is a lookup error.
\<close>

fun get_changes :: "store \<Rightarrow> nat list \<Rightarrow> exn + chdict list" where
  "get_changes db [] = Inr []"
| "get_changes db (i # ids) =
     (case db_changes db i of
        None \<Rightarrow> Inl (KeyError ''changeid'')
      | Some r \<Rightarrow>
        (case get_changes db ids of
           Inl e \<Rightarrow> Inl e
         | Inr cs \<Rightarrow> Inr (chdict_of i r # cs)))"

text \<open>
  Modelled from the spec: the change with the highest change id of a group; among equal
  ids (the same change given twice) the first one stays.
\<close>

fun last_change :: "chdict \<Rightarrow> chdict list \<Rightarrow> chdict" where
  "last_change c [] = c"
| "last_change c (d # ds) = last_change (if changeid c < changeid d then d else c) ds"

text \<open>
  Modelled from the spec: the group of a codebase is the changes of that codebase; a
  codebase without changes has no last change.
\<close>

definition last_change_for_codebase :: "chdict list \<Rightarrow> string \<Rightarrow> chdict option" where
  "last_change_for_codebase cs cb =
     (case filter (\<lambda>c. codebase c = cb) cs of [] \<Rightarrow> None | c # ds \<Rightarrow> Some (last_change c ds))"

text \<open>
  Modelled from the spec: the codebases of the buildset: the configured ones in the order
  of the configuration, then the codebases that only the changes name, in the order of
  their first change.
\<close>

definition buildset_codebases :: "scheduler \<Rightarrow> chdict list \<Rightarrow> string list" where
  "buildset_codebases sched cs =
     map fst (codebases sched)
     @ remdups (filter (\<lambda>cb. cb \<notin> fst ` set (codebases sched)) (map codebase cs))"

text \<open>
  Modelled from the spec: for a codebase with changes, the sourcestamp id of its
  highest-numbered change; for a configured codebase without changes, a dictionary
  synthesized from the configuration.
\<close>

definition sourcestamp_for :: "scheduler \<Rightarrow> chdict list \<Rightarrow> string \<Rightarrow> sourcestamp" where
  "sourcestamp_for sched cs cb =
     (case last_change_for_codebase cs cb of
        Some c \<Rightarrow> SsId (sourcestampid c)
      | None \<Rightarrow>
        SsDict (stub cb (case map_of (codebases sched) cb of None \<Rightarrow> Map.empty | Some d \<Rightarrow> d)))"

text \<open>
  Modelled from the spec: the selected changes, in the order of their change ids, merge
  their own properties, tagged ``Change'', into the outgoing properties; the last writer
  of a key wins.
\<close>

definition selected_changes :: "scheduler \<Rightarrow> chdict list \<Rightarrow> chdict list" where
  "selected_changes sched cs =
     sort_key changeid
       (concat (map (\<lambda>cb. case last_change_for_codebase cs cb of None \<Rightarrow> [] | Some c \<Rightarrow> [c])
                    (buildset_codebases sched cs)))"

text \<open>
  Modelled from the spec: the properties of the changes are merged in order, each tagged
  ``Change''; the last writer of a key wins.
\<close>

definition merge_change_properties :: "props \<Rightarrow> chdict list \<Rightarrow> props" where
  "merge_change_properties ps cs =
     foldl (\<lambda>acc c. acc ++ tag ''Change'' (chdict_properties c)) ps cs"

text \<open>
  Modelled from the spec: the missing BaseScheduler.addBuildsetForChanges: resolve the
  changes, take one sourcestamp per codebase, merge the selected changes' properties into
  the caller's, and go on with the common tail.
\<close>

definition addBuildsetForChanges ::
  "store \<Rightarrow> scheduler \<Rightarrow> string \<Rightarrow> nat list \<Rightarrow> bool \<Rightarrow> props option \<Rightarrow> string list option
     \<Rightarrow> int option \<Rightarrow> string option \<Rightarrow> exn + addBuildset_call" where
  "addBuildsetForChanges db sched reason changeids waited_for caller_properties builder_override priority
       external_idstring =
     (case get_changes db changeids of
        Inl e \<Rightarrow> Inl e
      | Inr cs \<Rightarrow>
        (let sourcestamps = map (sourcestamp_for sched cs) (buildset_codebases sched cs);
             outgoing = merge_change_properties
                          (case caller_properties of None \<Rightarrow> Map.empty | Some p \<Rightarrow> p)
                          (selected_changes sched cs)
         in addBuildsetForSourceStamps db sched reason sourcestamps waited_for builder_override
              (Some outgoing) priority external_idstring))"

text \<open>
  The change ids of a list whose change belongs to a codebase, for stating which change
  is the highest-numbered one of the codebase.
\<close>

definition codebase_of :: "store \<Rightarrow> nat \<Rightarrow> string option" where
  "codebase_of db i = map_option row_codebase (db_changes db i)"

definition changeids_of_codebase :: "store \<Rightarrow> nat list \<Rightarrow> string \<Rightarrow> nat list" where
  "changeids_of_codebase db changeids cb = filter (\<lambda>i. codebase_of db i = Some cb) changeids"

definition ssid_of :: "sourcestamp \<Rightarrow> nat option" where
  "ssid_of s = (case s of SsId i \<Rightarrow> Some i | SsDict _ \<Rightarrow> None)"

subsection \<open>Change consumption\<close>

text \<open>
  Modelled from the spec: (4.3, missing BaseScheduler.startConsumingChanges and its
  change callback) the arguments of startConsumingChanges. The change filter is an object whose
  \<^verbatim>\<open>filter_change\<close> answers true or false; \<^verbatim>\<open>fileIsImportant\<close> is a callable that may
  raise.
\<close>

record consuming =
  fileIsImportant :: "(change \<Rightarrow> exn + bool) option"
  change_filter :: "(change \<Rightarrow> bool) option"
  onlyImportant :: bool

text \<open>
  Modelled from the spec: the effects of consumption: the errors logged and the calls of the scheduler's
  per-change handler \<^verbatim>\<open>gotChange(change, important)\<close>, both in order.
\<close>

record consumed =
  logged :: "exn list"
  gotChange_calls :: "(change \<times> bool) list"

text \<open>
  Modelled from the spec: (4.3, steps 1 to 5) a change that the filter declines is
  dropped; the importance is computed by fileIsImportant, or is True without it; when
  fileIsImportant raises, the error is logged and the change is dropped; an unimportant
  change is dropped when only important ones are wanted; otherwise the change goes to the
  handler.
\<close>

definition changeCallback :: "consuming \<Rightarrow> change \<Rightarrow> consumed \<Rightarrow> consumed" where
  "changeCallback cfg ch st =
     (if (case change_filter cfg of None \<Rightarrow> False | Some accepts \<Rightarrow> \<not> accepts ch)
      then st
      else
        (case fileIsImportant cfg of
           None \<Rightarrow> st\<lparr>gotChange_calls := gotChange_calls st @ [(ch, True)]\<rparr>
         | Some f \<Rightarrow>
           (case f ch of
              Inl e \<Rightarrow> st\<lparr>logged := logged st @ [e]\<rparr>
            | Inr important \<Rightarrow>
              if onlyImportant cfg \<and> \<not> important then st
              else st\<lparr>gotChange_calls := gotChange_calls st @ [(ch, important)]\<rparr>)))"

text \<open>
  Modelled from the spec: the notifications arrive one after the other; each carries a
  change id, which the store resolves to the change.
\<close>

fun consume :: "consuming \<Rightarrow> (nat \<Rightarrow> change) \<Rightarrow> nat list \<Rightarrow> consumed \<Rightarrow> consumed" where
  "consume cfg getChange [] st = st"
| "consume cfg getChange (i # ids) st =
     consume cfg getChange ids (changeCallback cfg (getChange i) st)"

subsection \<open>Activation\<close>

text \<open>
  Modelled from the spec: (4.2, missing ClusteredBuildbotService) the state machine of one
  scheduler instance and the shared claim table, which maps the id of a scheduler object
  to the master that owns it.
\<close>

datatype activity = INACTIVE | POLLING | ACTIVE

text \<open>
  Modelled from the spec: one scheduler instance of the missing ClusteredBuildbotService:
  its master, its object id, its state, the number of calls of each hook so far, and the
  shared claim table as it sees it.
\<close>

record arbiter =
  masterid :: nat
  objectid :: nat
  activity :: activity
  activate_calls :: nat
  deactivate_calls :: nat
  claims :: "nat \<rightharpoonup> nat"

text \<open>
  Modelled from the spec: the events: the instance starts, its poll timer fires, it stops; and, from the other
  masters, a master claims an object that nobody owns, or the owner of an object releases
  it.
\<close>

datatype event = Start | Poll | Stop | OtherClaims nat nat | OtherReleases nat

text \<open>
  Modelled from the spec: a poll of a polling instance claims the object with
  insert-if-absent semantics; when the claim succeeds (the object was free, or the
  instance owned it already) the instance becomes active and the hook activate() is
  called; when another master owns the object the instance keeps polling. An active
  instance stays active and the hook is not called again. Stopping an active instance
  calls deactivate() and releases the claim; stopping cancels the timer.
\<close>

definition poll :: "arbiter \<Rightarrow> arbiter" where
  "poll a =
     (case activity a of
        INACTIVE \<Rightarrow> a
      | ACTIVE \<Rightarrow> a
      | POLLING \<Rightarrow>
        (case claims a (objectid a) of
           None \<Rightarrow>
             a\<lparr>claims := (claims a)(objectid a \<mapsto> masterid a), activity := ACTIVE,
               activate_calls := activate_calls a + 1\<rparr>
         | Some owner \<Rightarrow>
             if owner = masterid a
             then a\<lparr>activity := ACTIVE, activate_calls := activate_calls a + 1\<rparr>
             else a))"

text \<open>
  Modelled from the spec: one event (missing ClusteredBuildbotService): start begins
  polling, the timer polls, stop deactivates an active instance, releases its claim and
  cancels the timer; another master claims a free object or releases the object it owns.
\<close>

fun step :: "arbiter \<Rightarrow> event \<Rightarrow> arbiter" where
  "step a Start = (if activity a = INACTIVE then a\<lparr>activity := POLLING\<rparr> else a)"
| "step a Poll = poll a"
| "step a Stop =
     (if activity a = ACTIVE
      then a\<lparr>claims := (claims a)(objectid a := None), activity := INACTIVE,
             deactivate_calls := deactivate_calls a + 1\<rparr>
      else a\<lparr>activity := INACTIVE\<rparr>)"
| "step a (OtherClaims m obj) =
     (if m \<noteq> masterid a \<and> claims a obj = None then a\<lparr>claims := (claims a)(obj \<mapsto> m)\<rparr> else a)"
| "step a (OtherReleases obj) =
     (case claims a obj of
        Some owner \<Rightarrow> if owner \<noteq> masterid a then a\<lparr>claims := (claims a)(obj := None)\<rparr> else a
      | None \<Rightarrow> a)"

text \<open>
  Modelled from the spec: the events happen one after the other.
\<close>

definition run :: "arbiter \<Rightarrow> event list \<Rightarrow> arbiter" where
  "run a evs = foldl step a evs"

text \<open>
  Modelled from the spec: the missing isActive(): the instance is in the state ACTIVE.
\<close>

definition isActive :: "arbiter \<Rightarrow> bool" where
  "isActive a = (activity a = ACTIVE)"

subsection \<open>Example schedulers and stores, from the unit tests\<close>

definition sched_n :: scheduler where
  "sched_n = \<lparr>name = ''n'', builderNames = [Literal ''b''],
              sched_properties = [''scheduler'' \<mapsto> PyStr ''static''],
              codebases = [('''', Map.empty)]\<rparr>"

definition store_n :: store where
  "store_n = \<lparr>db_changes = [13 \<mapsto> \<lparr>row_codebase = '''', row_sourcestampid = 234,
                                      row_properties = [''scheduler'' \<mapsto> PyStr ''change'']\<rparr>],
              db_builders = [''b'' \<mapsto> 1]\<rparr>"


definition sched_cb :: scheduler where
  "sched_cb = \<lparr>name = ''n'', builderNames = [Literal ''b'', Literal ''c''],
               sched_properties = Map.empty,
               codebases = [(''cb'', [''repository'' \<mapsto> PyStr ''http://repo''])]\<rparr>"

definition a_row :: "string \<Rightarrow> nat \<Rightarrow> change_row" where
  "a_row cb ssid = \<lparr>row_codebase = cb, row_sourcestampid = ssid, row_properties = Map.empty\<rparr>"

definition store_cb :: store where
  "store_cb = \<lparr>db_changes = [13 \<mapsto> a_row ''cb'' 12, 14 \<mapsto> a_row ''cb'' 11, 15 \<mapsto> a_row ''cb'' 10],
               db_builders = [''b'' \<mapsto> 1, ''c'' \<mapsto> 2]\<rparr>"

definition sched_multi :: scheduler where
  "sched_multi =
     \<lparr>name = ''n'', builderNames = [Literal ''b'', Literal ''c''],
      sched_properties = Map.empty,
      codebases =
        [(''cbA'', [''repository'' \<mapsto> PyStr ''svn://A..'', ''branch'' \<mapsto> PyStr ''stable'',
                    ''revision'' \<mapsto> PyStr ''13579'']),
         (''cbB'', [''repository'' \<mapsto> PyStr ''svn://B..'', ''branch'' \<mapsto> PyStr ''stable'',
                    ''revision'' \<mapsto> PyStr ''24680'']),
         (''cbC'', [''repository'' \<mapsto> PyStr ''svn://C..'', ''branch'' \<mapsto> PyStr ''stable'',
                    ''revision'' \<mapsto> PyStr ''12345'']),
         (''cbD'', [''repository'' \<mapsto> PyStr ''svn://D..''])]\<rparr>"

definition store_multi :: store where
  "store_multi =
     \<lparr>db_changes = [12 \<mapsto> a_row ''cbA'' 912, 13 \<mapsto> a_row ''cbA'' 913, 14 \<mapsto> a_row ''cbA'' 914,
                    15 \<mapsto> a_row ''cbB'' 915, 16 \<mapsto> a_row ''cbB'' 916, 17 \<mapsto> a_row ''cbB'' 917],
      db_builders = [''b'' \<mapsto> 1, ''c'' \<mapsto> 2]\<rparr>"

text \<open>
  A consumer whose fileIsImportant raises on the change with the attribute
  \<^verbatim>\<open>bad\<close>, and three change notifications of which the second is that change.
\<close>

definition raising_consumer :: consuming where
  "raising_consumer =
     \<lparr>fileIsImportant =
        Some (\<lambda>c. if attrs c ''bad'' = None then Inr True else Inl (Raised ''ZeroDivisionError'')),
      change_filter = None, onlyImportant = False\<rparr>"

definition three_changes :: "nat \<Rightarrow> change" where
  "three_changes i =
     (if i = 2 then \<lparr>attrs = [''bad'' \<mapsto> PyBool True], properties = Map.empty\<rparr>
      else \<lparr>attrs = [''number'' \<mapsto> PyInt (int i)], properties = Map.empty\<rparr>)"

definition nothing_consumed :: consumed where
  "nothing_consumed = \<lparr>logged = [], gotChange_calls = []\<rparr>"

text \<open>
  The instance of master 1 for the scheduler object 19, not started, while master 2 owns
  the object (as in \<^verbatim>\<open>test_activation\<close>).
\<close>

definition claimed_elsewhere :: arbiter where
  "claimed_elsewhere =
     \<lparr>masterid = 1, objectid = 19, activity = INACTIVE, activate_calls = 0,
      deactivate_calls = 0, claims = [19 \<mapsto> 2]\<rparr>"

section \<open>Properties of the report generator\<close>

text \<open>
  C9: when two bodies that are both not None are merged, two strings or two lists are
  concatenated (nothing is logged, the flag is True); for every other combination the
  earlier body is kept, the later one is dropped (flag False) and exactly one warning is
  logged. The function is total: no combination raises.
\<close>

theorem merge_body_non_none:
  assumes "body \<noteq> PyNone" and "new_body \<noteq> PyNone"
  shows "(\<forall>a b. body = PyStr a \<and> new_body = PyStr b \<longrightarrow>
            merge_body self body new_body = ([], (PyStr (a @ b), True)))
       \<and> (\<forall>a b. body = PyList a \<and> new_body = PyList b \<longrightarrow>
            merge_body self body new_body = ([], (PyList (a @ b), True)))
       \<and> (\<not> (is_str body \<and> is_str new_body) \<and> \<not> (is_list body \<and> is_list new_body) \<longrightarrow>
            snd (merge_body self body new_body) = (body, False)
            \<and> length (fst (merge_body self body new_body)) = 1)"
  using assms
  by (cases body; cases new_body) (simp_all add: merge_body_def is_str_def is_list_def)

theorem merge_body_non_none_witness:
  "merge_body ''gen'' (PyStr ''ab'') (PyStr ''cd'') = ([], (PyStr ''abcd'', True))
   \<and> merge_body ''gen'' (PyList [PyInt 1]) (PyList [PyInt 2]) = ([], (PyList [PyInt 1, PyInt 2], True))
   \<and> snd (merge_body ''gen'' (PyStr ''ab'') (PyDict [])) = (PyStr ''ab'', False)
   \<and> length (fst (merge_body ''gen'' (PyStr ''ab'') (PyDict []))) = 1"
  using merge_body_non_none [of "PyStr ''ab''" "PyStr ''cd''" "''gen''"]
        merge_body_non_none [of "PyList [PyInt 1]" "PyList [PyInt 2]" "''gen''"]
        merge_body_non_none [of "PyStr ''ab''" "PyDict []" "''gen''"]
  by (simp add: is_str_def is_list_def)

text \<open>
  C1 as it is stated fails: with only ``problem'' configured, a failed build that has no
  previous build does not need a message.
\<close>

theorem problem_mode_no_previous_build:
  "is_message_needed_by_results upstream_results (compute_shortcut_modes (ModeSeq [''problem'']))
     (Build (Some (FAILURE upstream_results)) None) = False"
  by (simp add: is_message_needed_by_results_def prev_differs_def upstream_results_def)

text \<open>
  C1, amended: when ``problem'' is configured and none of the other six modes is, a
  message is needed exactly when the build's result is FAILURE and there is a previous
  build whose result is not FAILURE. So FAILURE after FAILURE needs no message, FAILURE
  after SUCCESS needs one, and FAILURE with no previous build needs none.
\<close>

theorem problem_mode_new_failure:
  assumes "''problem'' \<in> set mode"
    and "\<forall>m \<in> set mode. m \<notin> {''change'', ''failing'', ''passing'', ''warnings'',
                                 ''exception'', ''cancelled''}"
  shows "(is_message_needed_by_results rc mode b =
           (results b = Some (FAILURE rc)
            \<and> (\<exists>p. prev_build b = Some p \<and> results p \<noteq> Some (FAILURE rc))))
       \<and> is_message_needed_by_results rc mode
           (Build (Some (FAILURE rc)) (Some (Build (Some (FAILURE rc)) pp))) = False
       \<and> (SUCCESS rc \<noteq> FAILURE rc \<longrightarrow>
           is_message_needed_by_results rc mode
             (Build (Some (FAILURE rc)) (Some (Build (Some (SUCCESS rc)) pp))) = True)
       \<and> is_message_needed_by_results rc mode (Build (Some (FAILURE rc)) None) = False"
proof -
  have others: "''change'' \<notin> set mode" "''failing'' \<notin> set mode" "''passing'' \<notin> set mode"
    "''warnings'' \<notin> set mode" "''exception'' \<notin> set mode" "''cancelled'' \<notin> set mode"
    using assms(2) by blast+
  have general: "is_message_needed_by_results rc mode c =
           (results c = Some (FAILURE rc)
            \<and> (\<exists>p. prev_build c = Some p \<and> results p \<noteq> Some (FAILURE rc)))" for c
    using assms(1) others
    by (cases "prev_build c") (simp_all add: is_message_needed_by_results_def prev_differs_def)
  show ?thesis
    by (simp add: general)
qed

theorem problem_mode_new_failure_witness:
  "is_message_needed_by_results upstream_results [''problem'']
     (Build (Some 2) (Some (Build (Some 0) None))) = True
   \<and> is_message_needed_by_results upstream_results [''problem'']
     (Build (Some 2) (Some (Build (Some 2) None))) = False
   \<and> is_message_needed_by_results upstream_results [''problem'']
     (Build (Some 0) (Some (Build (Some 2) None))) = False
   \<and> is_message_needed_by_results upstream_results [''problem''] (Build (Some 2) None) = False"
  using problem_mode_new_failure [of "[''problem'']" upstream_results
          "Build (Some 0) (Some (Build (Some 2) None))" None]
  by (simp add: upstream_results_def)

section \<open>Properties of the change filter\<close>











lemmas ssfilter_spec_simps =
  ChangeFilter_init_def init_filters_def ssfilter_spec_def default_args_def
  create_filters_spec_def one_filter_def extend_filters_def branch_spec_def extract_filter_values_def
  is_str_or_none_def is_str_def create_property_filters_spec_def dict_items_def

text \<open>
  C2 as it is stated fails: for each of the five fields, the constructor accepts a value
  together with a callable for the same field.
\<close>

theorem value_and_fn_constructs:
  "\<not> isl (ChangeFilter_init (ssfilter_spec (\<lambda>p s. p = s)) (value_and_fn ''project''))
   \<and> \<not> isl (ChangeFilter_init (ssfilter_spec (\<lambda>p s. p = s)) (value_and_fn ''repository''))
   \<and> \<not> isl (ChangeFilter_init (ssfilter_spec (\<lambda>p s. p = s)) (value_and_fn ''branch''))
   \<and> \<not> isl (ChangeFilter_init (ssfilter_spec (\<lambda>p s. p = s)) (value_and_fn ''category''))
   \<and> \<not> isl (ChangeFilter_init (ssfilter_spec (\<lambda>p s. p = s)) (value_and_fn ''codebase''))"
  by (simp add: value_and_fn_def ssfilter_spec_simps)

lemma init_filters_without_fns: "init_filters ss (without_fns a) = init_filters ss a"
  by (simp add: init_filters_def without_fns_def)

text \<open>
  C2, amended: the constructor stores the callables as they are and never checks them
  against the value-based arguments. Whatever the helpers of ssfilter do, construction
  fails with an error exactly when it fails with that error once every callable is
  removed from the arguments; when it succeeds, the value-based and property filters are
  those built without the callables, and each callable is kept next to them, so that
  filter_change applies both.
\<close>

theorem constructor_ignores_callables:
  "(\<forall>e. ChangeFilter_init ss a = Inl e \<longleftrightarrow> ChangeFilter_init ss (without_fns a) = Inl e)
   \<and> (\<forall>cf. ChangeFilter_init ss a = Inr cf \<longrightarrow>
         (\<exists>cf0. ChangeFilter_init ss (without_fns a) = Inr cf0
                \<and> filters cf = filters cf0 \<and> property_filters cf = property_filters cf0)
         \<and> filter_fn cf = a_filter_fn a \<and> project_fn cf = a_project_fn a
         \<and> repository_fn cf = a_repository_fn a \<and> branch_fn cf = a_branch_fn a
         \<and> category_fn cf = a_category_fn a \<and> codebase_fn cf = a_codebase_fn a)"
  unfolding ChangeFilter_init_def init_filters_without_fns
  by (auto simp: without_fns_def split: sum.splits)

theorem constructor_ignores_callables_witness:
  "map_sum id (\<lambda>cf. (filter_change cf (a_change ''master''), filter_change cf (a_change ''other'')))
     (ChangeFilter_init (ssfilter_spec (\<lambda>p s. p = s)) (value_and_fn ''branch''))
   = Inr (Inr True, Inr False)
   \<and> \<not> isl (ChangeFilter_init (ssfilter_spec (\<lambda>p s. p = s)) (without_fns (value_and_fn ''branch'')))"
  using constructor_ignores_callables [of "ssfilter_spec (\<lambda>p s. p = s)" "value_and_fn ''branch''"]
  by (simp add: value_and_fn_def ssfilter_spec_simps without_fns_def filter_change_def
        return_False_if_def fn_rejects_def getattr_def getattr_default_def a_change_def
        FilterExactMatch_def)

lemma filters_loop_absent_attr:
  "attrs ch a = None \<Longrightarrow>
   filters_loop fs (ch\<lparr>attrs := (attrs ch)(a \<mapsto> PyStr '''')\<rparr>) rest = filters_loop fs ch rest"
  by (induction fs) (auto simp: getattr_default_def Let_def split: sum.splits)

lemma property_filters_loop_attrs:
  "property_filters_loop fs (ch\<lparr>attrs := m\<rparr>) rest = property_filters_loop fs ch rest"
  by (induction fs) (auto simp: getProperty_def Let_def split: sum.splits)

lemma filters_loop_properties:
  "filters_loop fs (ch\<lparr>properties := m\<rparr>) rest = filters_loop fs ch rest"
  by (induction fs) (auto simp: getattr_default_def Let_def split: sum.splits)

lemma property_filters_loop_absent:
  "properties ch p = None \<Longrightarrow>
   property_filters_loop fs (ch\<lparr>properties := (properties ch)(p \<mapsto> (PyStr '''', src))\<rparr>) rest
     = property_filters_loop fs ch rest"
  by (induction fs) (auto simp: getProperty_def Let_def split: sum.splits)

lemma fn_rejects_absent_attr:
  "fn = None \<or> b \<noteq> a \<Longrightarrow>
   fn_rejects fn (getattr (ch\<lparr>attrs := (attrs ch)(a \<mapsto> v)\<rparr>) b) = fn_rejects fn (getattr ch b)"
  by (auto simp: fn_rejects_def getattr_def)

lemma getattr_properties: "getattr (ch\<lparr>properties := m\<rparr>) b = getattr ch b"
  by (simp add: getattr_def)

text \<open>
  C10 as it is stated fails: with a callable configured on the project, a change that
  lacks the attribute project makes filter_change raise AttributeError, while the change
  whose project is the empty string is passed to the callable and accepted. The callables
  read \<^verbatim>\<open>change.project\<close> and the four other fields by plain attribute access; only the
  two loops fall back to the empty string.
\<close>

theorem absent_raises_with_callable:
  "filter_change (no_filters\<lparr>project_fn := Some (\<lambda>v. Inr True)\<rparr>) bare_change
     = Inl (AttributeError ''project'')
   \<and> filter_change (no_filters\<lparr>project_fn := Some (\<lambda>v. Inr True)\<rparr>)
       (bare_change\<lparr>attrs := (attrs bare_change)(''project'' \<mapsto> PyStr '''')\<rparr>) = Inr True"
  by (simp add: filter_change_def no_filters_def bare_change_def fn_rejects_def
        return_False_if_def getattr_def)

text \<open>
  C10, amended: a value-based field filter on a change that lacks the attribute is
  evaluated on the empty string, and so is a property filter on a change without the
  property. For a filter with no generic filter function and no callable on that
  attribute, a change that lacks the attribute or the property gets the same answer from
  filter_change as the change that carries it with the empty string as its value.
\<close>

theorem absent_is_empty_string:
  assumes "filter_fn cf = None"
  shows "(attrs ch a = None \<and> fn_for cf a = None \<longrightarrow>
            filter_change cf (ch\<lparr>attrs := (attrs ch)(a \<mapsto> PyStr '''')\<rparr>) = filter_change cf ch)
       \<and> (properties ch p = None \<longrightarrow>
            filter_change cf (ch\<lparr>properties := (properties ch)(p \<mapsto> (PyStr '''', src))\<rparr>)
              = filter_change cf ch)
       \<and> (attrs ch (filter_prop f) = None \<longrightarrow>
            filter_change (no_filters\<lparr>filters := [f]\<rparr>) ch = is_matched f (PyStr ''''))
       \<and> (properties ch (filter_prop f) = None \<longrightarrow>
            filter_change (no_filters\<lparr>property_filters := [f]\<rparr>) ch = is_matched f (PyStr ''''))"
proof (intro conjI impI)
  have generic: "fn_rejects (filter_fn cf) x = Inr False" for x
    using assms by (simp add: fn_rejects_def)
  show "filter_change cf (ch\<lparr>attrs := (attrs ch)(a \<mapsto> PyStr '''')\<rparr>) = filter_change cf ch"
    if h: "attrs ch a = None \<and> fn_for cf a = None"
  proof -
    have p: "project_fn cf = None \<or> ''project'' \<noteq> a"
      and c: "codebase_fn cf = None \<or> ''codebase'' \<noteq> a"
      and r: "repository_fn cf = None \<or> ''repository'' \<noteq> a"
      and g: "category_fn cf = None \<or> ''category'' \<noteq> a"
      and b: "branch_fn cf = None \<or> ''branch'' \<noteq> a"
      using h by (auto simp: fn_for_def split: if_splits)
    show ?thesis
      unfolding filter_change_def generic
      by (simp only: fn_rejects_absent_attr [OF p] fn_rejects_absent_attr [OF c]
            fn_rejects_absent_attr [OF r] fn_rejects_absent_attr [OF g]
            fn_rejects_absent_attr [OF b] property_filters_loop_attrs
            filters_loop_absent_attr [OF conjunct1 [OF h]])
  qed
  show "filter_change cf (ch\<lparr>properties := (properties ch)(p \<mapsto> (PyStr '''', src))\<rparr>)
          = filter_change cf ch"
    if "properties ch p = None"
    unfolding filter_change_def generic
    by (simp only: getattr_properties filters_loop_properties
          property_filters_loop_absent [OF that])
  show "filter_change (no_filters\<lparr>filters := [f]\<rparr>) ch = is_matched f (PyStr '''')"
    if "attrs ch (filter_prop f) = None"
    using that
    by (simp add: filter_change_def no_filters_def fn_rejects_def return_False_if_def
          getattr_default_def split: sum.splits)
  show "filter_change (no_filters\<lparr>property_filters := [f]\<rparr>) ch = is_matched f (PyStr '''')"
    if "properties ch (filter_prop f) = None"
    using that
    by (simp add: filter_change_def no_filters_def fn_rejects_def return_False_if_def
          getProperty_def split: sum.splits)
qed

theorem absent_is_empty_string_witness:
  "filter_change empty_only bare_change = Inr True
   \<and> filter_change empty_only
         (bare_change\<lparr>attrs := (attrs bare_change)(''project'' \<mapsto> PyStr '''')\<rparr>) = Inr True
   \<and> filter_change empty_only
         (bare_change\<lparr>properties :=
            (properties bare_change)(''color'' \<mapsto> (PyStr '''', ''Change''))\<rparr>) = Inr True
   \<and> filter_change (no_filters\<lparr>filters := [FilterExactMatch ''project'' [PyStr ''x'']]\<rparr>)
         bare_change = Inr False
   \<and> filter_change (no_filters\<lparr>property_filters := [FilterExactMatch ''color'' [PyStr ''x'']]\<rparr>)
         bare_change = Inr False"
  using absent_is_empty_string [of empty_only bare_change "''project''" "''color''" "''Change''"
          "FilterExactMatch ''project'' [PyStr ''x'']"]
        absent_is_empty_string [of empty_only bare_change "''project''" "''color''" "''Change''"
          "FilterExactMatch ''color'' [PyStr ''x'']"]
  by (simp add: empty_only_def bare_change_def no_filters_def fn_for_def FilterExactMatch_def
        filter_change_def return_False_if_def fn_rejects_def getattr_default_def getProperty_def)

section \<open>Properties of the scheduler core\<close>



lemma addBuildsetForSourceStamps_sourcestamps:
  "addBuildsetForSourceStamps db sched reason ss waited bo ps prio ext = Inr call \<Longrightarrow>
   bs_sourcestamps call = ss"
  by (auto simp: addBuildsetForSourceStamps_def Let_def split: sum.splits)

lemmas scheduler_simps =
  addBuildsetForSourceStamps_def addBuildsetForSourceStampsWithDefaults_def
  addBuildsetForChanges_def merge_properties_def resolve_builder_names_def
  stamps_with_defaults_def buildset_codebases_def sourcestamp_for_def
  last_change_for_codebase_def chdict_of_def selected_changes_def merge_change_properties_def
  tag_def Let_def



text \<open>
  C5: with the configured codebases \<^verbatim>\<open>{'': {}}\<close> and no input sourcestamp, the buildset
  that addBuildsetForSourceStampsWithDefaults issues has exactly one sourcestamp, the
  dictionary with repository '', branch None, revision None, codebase '' and project ''.
\<close>

theorem defaults_for_empty_codebase:
  assumes "codebases sched = [('''', Map.empty)]"
    and "addBuildsetForSourceStampsWithDefaults db sched reason [] waited ps bo prio = Inr call"
  shows "bs_sourcestamps call =
           [SsDict [''repository'' \<mapsto> PyStr '''', ''branch'' \<mapsto> PyNone, ''revision'' \<mapsto> PyNone,
                    ''codebase'' \<mapsto> PyStr '''', ''project'' \<mapsto> PyStr '''']]"
proof -
  have "bs_sourcestamps call = map SsDict (stamps_with_defaults sched [])"
    using assms(2)
    by (simp add: addBuildsetForSourceStampsWithDefaults_def addBuildsetForSourceStamps_sourcestamps)
  also have "\<dots> = [SsDict (stub '''' Map.empty)]"
    by (simp add: stamps_with_defaults_def assms(1))
  also have "stub '''' Map.empty = [''repository'' \<mapsto> PyStr '''', ''branch'' \<mapsto> PyNone, ''revision'' \<mapsto> PyNone,
                    ''codebase'' \<mapsto> PyStr '''', ''project'' \<mapsto> PyStr '''']"
    by (rule ext) (simp add: stub_def get_default_def)
  finally show ?thesis .
qed


theorem defaults_for_empty_codebase_witness:
  "map_sum id bs_sourcestamps
     (addBuildsetForSourceStampsWithDefaults store_n sched_n ''power'' [] False None None None)
   = Inr [SsDict [''repository'' \<mapsto> PyStr '''', ''branch'' \<mapsto> PyNone, ''revision'' \<mapsto> PyNone,
                  ''codebase'' \<mapsto> PyStr '''', ''project'' \<mapsto> PyStr '''']]"
proof -
  obtain c where r: "addBuildsetForSourceStampsWithDefaults store_n sched_n ''power'' [] False
       None None None = Inr c"
    by (simp add: scheduler_simps sched_n_def store_n_def)
  have cb: "codebases sched_n = [('''', Map.empty)]"
    by (simp add: sched_n_def)
  show ?thesis
    using defaults_for_empty_codebase [OF cb r] r by simp
qed


lemma get_changes_map:
  "get_changes db ids = Inr cs \<Longrightarrow>
   cs = map (\<lambda>i. chdict_of i (the (db_changes db i))) ids \<and> (\<forall>i \<in> set ids. db_changes db i \<noteq> None)"
  by (induction ids arbitrary: cs) (auto split: option.splits sum.splits)

lemma last_change_in: "last_change c ds \<in> set (c # ds)"
  by (induction ds arbitrary: c) auto

lemma last_change_ge_start: "changeid c \<le> changeid (last_change c ds)"
proof (induction ds arbitrary: c)
  case Nil
  then show ?case by simp
next
  case (Cons e es)
  have "changeid c \<le> changeid (if changeid c < changeid e then e else c)"
    by simp
  also have "\<dots> \<le> changeid (last_change (if changeid c < changeid e then e else c) es)"
    by (rule Cons.IH)
  finally show ?case by simp
qed

lemma last_change_ge_rest: "d \<in> set ds \<Longrightarrow> changeid d \<le> changeid (last_change c ds)"
proof (induction ds arbitrary: c)
  case Nil
  then show ?case by simp
next
  case (Cons e es)
  show ?case
  proof (cases "d = e")
    case True
    have "changeid e \<le> changeid (if changeid c < changeid e then e else c)"
      by simp
    also have "\<dots> \<le> changeid (last_change (if changeid c < changeid e then e else c) es)"
      by (rule last_change_ge_start)
    finally show ?thesis using True by simp
  next
    case False
    then have "d \<in> set es" using Cons.prems by simp
    then show ?thesis using Cons.IH by simp
  qed
qed

lemma last_change_max: "d \<in> set (c # ds) \<Longrightarrow> changeid d \<le> changeid (last_change c ds)"
  using last_change_ge_start [of c ds] last_change_ge_rest [of d ds c] by auto

lemma last_change_for_codebase_Some:
  assumes "last_change_for_codebase cs cb = Some c"
  shows "c \<in> set cs \<and> codebase c = cb \<and> (\<forall>d \<in> set cs. codebase d = cb \<longrightarrow> changeid d \<le> changeid c)"
proof (cases "filter (\<lambda>c. codebase c = cb) cs")
  case Nil
  then show ?thesis using assms by (simp add: last_change_for_codebase_def)
next
  case (Cons x xs)
  then have c: "c = last_change x xs"
    using assms by (simp add: last_change_for_codebase_def)
  have "c \<in> set (filter (\<lambda>c. codebase c = cb) cs)"
    unfolding c Cons by (rule last_change_in)
  moreover have "changeid d \<le> changeid c" if "d \<in> set cs" "codebase d = cb" for d
  proof -
    have "d \<in> set (x # xs)" using that Cons [symmetric] by simp
    then show ?thesis unfolding c by (rule last_change_max)
  qed
  ultimately show ?thesis by auto
qed

lemma last_change_for_codebase_None:
  "last_change_for_codebase cs cb = None \<longleftrightarrow> cb \<notin> codebase ` set cs"
proof (cases "filter (\<lambda>c. codebase c = cb) cs")
  case Nil
  then show ?thesis
    by (auto simp: last_change_for_codebase_def filter_empty_conv)
next
  case (Cons x xs)
  then have "x \<in> set (filter (\<lambda>c. codebase c = cb) cs)" by simp
  then have "cb \<in> codebase ` set cs" by auto
  then show ?thesis using Cons by (simp add: last_change_for_codebase_def)
qed

lemma codebase_chdict_of: "codebase (chdict_of i r) = row_codebase r"
  and changeid_chdict_of: "changeid (chdict_of i r) = i"
  and sourcestampid_chdict_of: "sourcestampid (chdict_of i r) = row_sourcestampid r"
  by (simp_all add: chdict_of_def)

lemma highest_change_selected:
  assumes gc: "get_changes db ids = Inr cs"
    and ne: "changeids_of_codebase db ids cb \<noteq> []"
  shows "\<exists>r. db_changes db (Max (set (changeids_of_codebase db ids cb))) = Some r
             \<and> last_change_for_codebase cs cb
                 = Some (chdict_of (Max (set (changeids_of_codebase db ids cb))) r)"
proof -
  let ?mk = "\<lambda>i. chdict_of i (the (db_changes db i))"
  have cs: "cs = map ?mk ids" and present: "\<forall>i \<in> set ids. db_changes db i \<noteq> None"
    using get_changes_map [OF gc] by auto
  have cb_of: "codebase (?mk i) = cb \<longleftrightarrow> codebase_of db i = Some cb" if "i \<in> set ids" for i
    using present that by (auto simp: codebase_of_def codebase_chdict_of)
  obtain j where j: "j \<in> set ids" "codebase_of db j = Some cb"
    using ne by (auto simp: changeids_of_codebase_def filter_empty_conv)
  then have "cb \<in> codebase ` set cs"
    using cb_of [of j] by (force simp: cs)
  then obtain c where c: "last_change_for_codebase cs cb = Some c"
    using last_change_for_codebase_None [of cs cb] by (cases "last_change_for_codebase cs cb") auto
  from last_change_for_codebase_Some [OF c]
  have c_in: "c \<in> set cs" and c_cb: "codebase c = cb"
    and c_max: "\<forall>d \<in> set cs. codebase d = cb \<longrightarrow> changeid d \<le> changeid c"
    by auto
  from c_in obtain i where i: "i \<in> set ids" "c = ?mk i"
    by (auto simp: cs)
  have i_cb: "codebase_of db i = Some cb"
    using cb_of [OF i(1)] c_cb i(2) by simp
  have "Max (set (changeids_of_codebase db ids cb)) = i"
  proof (rule Max_eqI)
    show "finite (set (changeids_of_codebase db ids cb))" by simp
    show "i \<in> set (changeids_of_codebase db ids cb)"
      using i(1) i_cb by (simp add: changeids_of_codebase_def)
    fix k assume "k \<in> set (changeids_of_codebase db ids cb)"
    then have k: "k \<in> set ids" "codebase_of db k = Some cb"
      by (auto simp: changeids_of_codebase_def)
    then have "?mk k \<in> set cs" "codebase (?mk k) = cb"
      using cb_of [of k] by (auto simp: cs)
    then have "changeid (?mk k) \<le> changeid c" using c_max by blast
    then show "k \<le> i" by (simp add: i(2) changeid_chdict_of)
  qed
  moreover obtain r where "db_changes db i = Some r"
    using present i(1) by auto
  ultimately show ?thesis
    using c i(2) by auto
qed

lemma selected_has_changes:
  assumes gc: "get_changes db ids = Inr cs"
    and c: "last_change_for_codebase cs cb = Some c"
  shows "changeids_of_codebase db ids cb \<noteq> []"
proof -
  let ?mk = "\<lambda>i. chdict_of i (the (db_changes db i))"
  have cs: "cs = map ?mk ids" and present: "\<forall>i \<in> set ids. db_changes db i \<noteq> None"
    using get_changes_map [OF gc] by auto
  from last_change_for_codebase_Some [OF c] obtain i where "i \<in> set ids" "codebase (?mk i) = cb"
    by (auto simp: cs)
  then have "i \<in> set ids" "codebase_of db i = Some cb"
    using present by (auto simp: codebase_of_def codebase_chdict_of)
  then show ?thesis
    by (auto simp: changeids_of_codebase_def filter_empty_conv)
qed

lemma buildset_codebases_changes:
  "cb \<in> codebase ` set cs \<Longrightarrow> cb \<in> set (buildset_codebases sched cs)"
  by (auto simp: buildset_codebases_def)

text \<open>
  C4: whatever the order of the change ids given to addBuildsetForChanges, every codebase
  that has a change among them contributes the sourcestamp id of its change with the
  highest change id, and no sourcestamp id of the buildset comes from another change. With
  the change ids 14, 15, 13 of one codebase and the sourcestamp ids 11, 10, 12 the
  sourcestamp 10 is selected.
\<close>

theorem highest_changeid_selects_sourcestamp:
  assumes run: "addBuildsetForChanges db sched reason changeids waited ps bo prio ext = Inr call"
  shows "(\<forall>cb. changeids_of_codebase db changeids cb \<noteq> [] \<longrightarrow>
            (\<exists>r. db_changes db (Max (set (changeids_of_codebase db changeids cb))) = Some r
                 \<and> SsId (row_sourcestampid r) \<in> set (bs_sourcestamps call)))
       \<and> (\<forall>s. SsId s \<in> set (bs_sourcestamps call) \<longrightarrow>
            (\<exists>cb r. changeids_of_codebase db changeids cb \<noteq> []
                 \<and> db_changes db (Max (set (changeids_of_codebase db changeids cb))) = Some r
                 \<and> s = row_sourcestampid r))"
proof -
  obtain cs where gc: "get_changes db changeids = Inr cs"
    and ss: "bs_sourcestamps call = map (sourcestamp_for sched cs) (buildset_codebases sched cs)"
    using run
    by (auto simp: addBuildsetForChanges_def Let_def addBuildsetForSourceStamps_sourcestamps
             split: sum.splits)
  show ?thesis
  proof (intro conjI allI impI)
    fix cb assume ne: "changeids_of_codebase db changeids cb \<noteq> []"
    from highest_change_selected [OF gc ne] obtain r
      where r: "db_changes db (Max (set (changeids_of_codebase db changeids cb))) = Some r"
        and sel: "last_change_for_codebase cs cb
                    = Some (chdict_of (Max (set (changeids_of_codebase db changeids cb))) r)"
      by blast
    have "cb \<in> codebase ` set cs"
      using sel last_change_for_codebase_None [of cs cb] by auto
    then have "cb \<in> set (buildset_codebases sched cs)"
      by (rule buildset_codebases_changes)
    moreover have "sourcestamp_for sched cs cb = SsId (row_sourcestampid r)"
      by (simp add: sourcestamp_for_def sel sourcestampid_chdict_of)
    ultimately have "SsId (row_sourcestampid r) \<in> set (bs_sourcestamps call)"
      unfolding ss by force
    with r show "\<exists>r. db_changes db (Max (set (changeids_of_codebase db changeids cb))) = Some r
                 \<and> SsId (row_sourcestampid r) \<in> set (bs_sourcestamps call)"
      by blast
  next
    fix s assume "SsId s \<in> set (bs_sourcestamps call)"
    then obtain cb where cb: "sourcestamp_for sched cs cb = SsId s"
      unfolding ss by auto
    then obtain c where c: "last_change_for_codebase cs cb = Some c" and s: "s = sourcestampid c"
      by (auto simp: sourcestamp_for_def split: option.splits)
    have ne: "changeids_of_codebase db changeids cb \<noteq> []"
      by (rule selected_has_changes [OF gc c])
    from highest_change_selected [OF gc ne] c s
    show "\<exists>cb r. changeids_of_codebase db changeids cb \<noteq> []
                 \<and> db_changes db (Max (set (changeids_of_codebase db changeids cb))) = Some r
                 \<and> s = row_sourcestampid r"
      using ne by (auto simp: sourcestampid_chdict_of)
  qed
qed


theorem highest_changeid_selects_sourcestamp_witness:
  "map_sum id bs_sourcestamps
     (addBuildsetForChanges store_cb sched_cb ''power'' [14, 15, 13] False None None None None)
   = Inr [SsId 10]
   \<and> changeids_of_codebase store_cb [14, 15, 13] ''cb'' = [14, 15, 13]
   \<and> map_option row_sourcestampid (db_changes store_cb 15) = Some 10
   \<and> map_sum id (map ssid_of o bs_sourcestamps)
     (addBuildsetForChanges store_multi sched_multi ''power'' [14, 12, 17, 16, 13, 15] True None
        None None None)
   = Inr [Some 914, Some 917, None, None]"
proof -
  obtain c where r: "addBuildsetForChanges store_cb sched_cb ''power'' [14, 15, 13] False None
       None None None = Inr c"
    and ss: "bs_sourcestamps c = [SsId 10]"
    by (simp add: scheduler_simps sched_cb_def store_cb_def a_row_def)
  have ids: "changeids_of_codebase store_cb [14, 15, 13] ''cb'' = [14, 15, 13]"
    by (simp add: changeids_of_codebase_def codebase_of_def store_cb_def a_row_def)
  have multi: "map_sum id (map ssid_of o bs_sourcestamps)
     (addBuildsetForChanges store_multi sched_multi ''power'' [14, 12, 17, 16, 13, 15] True None
        None None None)
   = Inr [Some 914, Some 917, None, None]"
    by (simp add: scheduler_simps sched_multi_def store_multi_def a_row_def ssid_of_def)
  show ?thesis
    using highest_changeid_selects_sourcestamp [OF r] r ss ids multi
    by (simp add: store_cb_def a_row_def)
qed

lemma changeCallback_effects:
  "changeCallback cfg ch st =
     st\<lparr>logged := logged st @ logged (changeCallback cfg ch \<lparr>logged = [], gotChange_calls = []\<rparr>),
        gotChange_calls := gotChange_calls st
           @ gotChange_calls (changeCallback cfg ch \<lparr>logged = [], gotChange_calls = []\<rparr>)\<rparr>"
  by (auto simp: changeCallback_def split: option.splits sum.splits)

lemma consume_effects:
  "consume cfg g ids st =
     st\<lparr>logged := logged st @ concat (map (\<lambda>i. logged (changeCallback cfg (g i) nothing_consumed)) ids),
        gotChange_calls := gotChange_calls st
          @ concat (map (\<lambda>i. gotChange_calls (changeCallback cfg (g i) nothing_consumed)) ids)\<rparr>"
proof (induction ids arbitrary: st)
  case Nil
  then show ?case by simp
next
  case (Cons i ids)
  show ?case
    unfolding consume.simps Cons.IH [of "changeCallback cfg (g i) st"]
    by (subst (1 2 3) changeCallback_effects) (simp add: nothing_consumed_def)
qed

lemma changeCallback_raises:
  assumes "fileIsImportant cfg = Some f" and "f ch = Inl e"
    and "case change_filter cfg of None \<Rightarrow> True | Some accepts \<Rightarrow> accepts ch"
  shows "changeCallback cfg ch st = st\<lparr>logged := logged st @ [e]\<rparr>"
  using assms by (auto simp: changeCallback_def split: option.splits)

text \<open>
  C7: when fileIsImportant raises on a change that passed the change filter, the error is
  logged and the handler gotChange is not called for that change, as when the change
  filter declines it; the handler calls of the whole stream are those of the stream
  without that change, and the changes after it are consumed as they would be alone.
\<close>

theorem fileIsImportant_exception_drops_change:
  assumes "fileIsImportant cfg = Some f" and "f (getChange i) = Inl e"
    and "case change_filter cfg of None \<Rightarrow> True | Some accepts \<Rightarrow> accepts (getChange i)"
  shows "changeCallback cfg (getChange i) st = st\<lparr>logged := logged st @ [e]\<rparr>
       \<and> gotChange_calls (changeCallback cfg (getChange i) st)
           = gotChange_calls (changeCallback (cfg\<lparr>change_filter := Some (\<lambda>c. False)\<rparr>) (getChange i) st)
       \<and> gotChange_calls (consume cfg getChange (pre @ i # post) st)
           = gotChange_calls (consume cfg getChange (pre @ post) st)
       \<and> logged (consume cfg getChange (pre @ i # post) st)
           = logged (consume cfg getChange pre st) @ [e]
             @ logged (consume cfg getChange post nothing_consumed)"
proof -
  have one: "changeCallback cfg (getChange i) s = s\<lparr>logged := logged s @ [e]\<rparr>" for s
    by (rule changeCallback_raises [OF assms])
  have filtered: "changeCallback (cfg\<lparr>change_filter := Some (\<lambda>c. False)\<rparr>) (getChange i) st = st"
    by (simp add: changeCallback_def)
  show ?thesis
    by (simp add: one filtered consume_effects [of cfg getChange "pre @ i # post"]
          consume_effects [of cfg getChange "pre @ post"] consume_effects [of cfg getChange pre]
          consume_effects [of cfg getChange post] nothing_consumed_def)
qed

theorem fileIsImportant_exception_drops_change_witness:
  "consume raising_consumer three_changes [1, 2, 3] nothing_consumed
   = \<lparr>logged = [Raised ''ZeroDivisionError''],
      gotChange_calls = [(three_changes 1, True), (three_changes 3, True)]\<rparr>
   \<and> consume raising_consumer three_changes [1, 3] nothing_consumed
   = \<lparr>logged = [], gotChange_calls = [(three_changes 1, True), (three_changes 3, True)]\<rparr>"
  using fileIsImportant_exception_drops_change [of raising_consumer
          "\<lambda>c. if attrs c ''bad'' = None then Inr True else Inl (Raised ''ZeroDivisionError'')"
          three_changes 2 "Raised ''ZeroDivisionError''" nothing_consumed "[1]" "[3]"]
  by (simp add: raising_consumer_def three_changes_def nothing_consumed_def changeCallback_def)

lemma step_foreign_claim:
  assumes "claims a (objectid a) = Some other" and "other \<noteq> masterid a"
    and "activity a \<noteq> ACTIVE" and "ev \<noteq> OtherReleases (objectid a)"
  shows "claims (step a ev) (objectid a) = Some other \<and> activity (step a ev) \<noteq> ACTIVE
       \<and> activate_calls (step a ev) = activate_calls a \<and> objectid (step a ev) = objectid a
       \<and> masterid (step a ev) = masterid a \<and> deactivate_calls (step a ev) = deactivate_calls a"
  using assms by (cases ev) (auto simp: poll_def split: activity.splits option.splits)

lemma run_foreign_claim:
  assumes "claims a (objectid a) = Some other" and "other \<noteq> masterid a"
    and "activity a \<noteq> ACTIVE" and "OtherReleases (objectid a) \<notin> set evs"
  shows "claims (run a evs) (objectid a) = Some other \<and> activity (run a evs) \<noteq> ACTIVE
       \<and> activate_calls (run a evs) = activate_calls a \<and> objectid (run a evs) = objectid a
       \<and> masterid (run a evs) = masterid a \<and> deactivate_calls (run a evs) = deactivate_calls a"
  using assms
proof (induction evs arbitrary: a)
  case Nil
  then show ?case by (simp add: run_def)
next
  case (Cons ev evs)
  have ev: "ev \<noteq> OtherReleases (objectid a)" using Cons.prems(4) by auto
  note s = step_foreign_claim [OF Cons.prems(1-3) ev]
  have "claims (run (step a ev) evs) (objectid (step a ev)) = Some other
       \<and> activity (run (step a ev) evs) \<noteq> ACTIVE
       \<and> activate_calls (run (step a ev) evs) = activate_calls (step a ev)
       \<and> objectid (run (step a ev) evs) = objectid (step a ev)
       \<and> masterid (run (step a ev) evs) = masterid (step a ev)
       \<and> deactivate_calls (run (step a ev) evs) = deactivate_calls (step a ev)"
    using s Cons.prems(2,4) by (intro Cons.IH) auto
  then show ?case using s by (simp add: run_def)
qed

text \<open>
  C8: while another master owns the claim of the scheduler object, an instance that is not
  active never calls activate() and never reports itself active, whatever it does (start,
  any number of polls, stop) and whatever other masters claim, as long as the owner does
  not release the claim; in particular after a start and n polls, for every n. Once the
  owner has released the claim, the next start and poll call activate() once and the
  instance is active.
\<close>

theorem no_activation_while_claimed_elsewhere:
  assumes "claims a (objectid a) = Some other" and "other \<noteq> masterid a"
    and "activity a \<noteq> ACTIVE"
  shows "(OtherReleases (objectid a) \<notin> set evs \<longrightarrow>
            activate_calls (run a evs) = activate_calls a \<and> \<not> isActive (run a evs)
            \<and> claims (run a evs) (objectid a) = Some other)
       \<and> (\<forall>n. activate_calls (run a (Start # replicate n Poll)) = activate_calls a
              \<and> \<not> isActive (run a (Start # replicate n Poll)))
       \<and> (OtherReleases (objectid a) \<notin> set evs \<longrightarrow>
            activate_calls (run a (evs @ [OtherReleases (objectid a), Start, Poll]))
              = activate_calls a + 1
            \<and> isActive (run a (evs @ [OtherReleases (objectid a), Start, Poll])))"
proof (intro conjI impI allI)
  assume no: "OtherReleases (objectid a) \<notin> set evs"
  note r = run_foreign_claim [OF assms no]
  show "activate_calls (run a evs) = activate_calls a" using r by simp
  show "\<not> isActive (run a evs)" using r by (simp add: isActive_def)
  show "claims (run a evs) (objectid a) = Some other" using r by simp
  have split: "run a (evs @ [OtherReleases (objectid a), Start, Poll])
        = step (step (step (run a evs) (OtherReleases (objectid a))) Start) Poll"
    by (simp add: run_def)
  show "activate_calls (run a (evs @ [OtherReleases (objectid a), Start, Poll])) = activate_calls a + 1"
    unfolding split using r assms(2)
    by (cases "activity (run a evs)") (auto simp: poll_def)
  show "isActive (run a (evs @ [OtherReleases (objectid a), Start, Poll]))"
    unfolding split using r assms(2)
    by (cases "activity (run a evs)") (auto simp: poll_def isActive_def)
next
  fix n
  have no: "OtherReleases (objectid a) \<notin> set (Start # replicate n Poll)" by auto
  note r = run_foreign_claim [OF assms no]
  show "activate_calls (run a (Start # replicate n Poll)) = activate_calls a" using r by simp
  show "\<not> isActive (run a (Start # replicate n Poll))" using r by (simp add: isActive_def)
qed

theorem no_activation_while_claimed_elsewhere_witness:
  "activate_calls (run claimed_elsewhere [Start, Poll, Poll, Poll]) = 0
   \<and> \<not> isActive (run claimed_elsewhere [Start, Poll, Poll, Poll])
   \<and> activate_calls (run claimed_elsewhere [Start, Poll, Poll, Poll, Stop, OtherReleases 19, Start, Poll]) = 1
   \<and> isActive (run claimed_elsewhere [Start, Poll, Poll, Poll, Stop, OtherReleases 19, Start, Poll])"
  using no_activation_while_claimed_elsewhere [of claimed_elsewhere 2 "[Start, Poll, Poll, Poll]"]
        no_activation_while_claimed_elsewhere [of claimed_elsewhere 2 "[Start, Poll, Poll, Poll, Stop]"]
  by (simp add: claimed_elsewhere_def)

end
